theory Spec2Isabelle
  imports Main "HOL-Library.Sublist"
begin

section \<open>JavaScript strings\<close>

text \<open>
  A JavaScript string is modelled by the sequence of its Unicode code points (scalar
  values, so no unpaired surrogates: text decoded from the terminal or from a UTF-8
  file is well formed). Concatenation \<^verbatim>\<open>+\<close> is \<open>@\<close>, the empty
  string (the only falsy string) is \<open>[]\<close>. Identifiers that the program only compares
  with ASCII literals (key names, row values) are HOL strings.
\<close>

type_synonym jsstring = "nat list"

definition js :: "string \<Rightarrow> jsstring" where
  "js lit = map of_char lit"

text \<open>
  \<^verbatim>\<open>String.prototype.length\<close> counts UTF-16 code units: a code point outside the
  Basic Multilingual Plane (\<open>\<ge> 0x10000 = 65536\<close>) is a surrogate pair and counts 2.
\<close>

definition js_length :: "jsstring \<Rightarrow> int" where
  "js_length s = (\<Sum>c\<leftarrow>s. if c < 65536 then 1 else 2)"

text \<open>
  \<^verbatim>\<open>String.prototype.trim\<close> removes leading and trailing white space and line
  terminators (ECMAScript WhiteSpace and LineTerminator code points).
\<close>

definition isWhiteSpace :: "nat \<Rightarrow> bool" where
  "isWhiteSpace c \<longleftrightarrow>
     c \<in> {9, 10, 11, 12, 13, 32, 160, 5760, 8232, 8233, 8239, 8287, 12288, 65279}
     \<or> (8192 \<le> c \<and> c \<le> 8202)"

definition js_trim :: "jsstring \<Rightarrow> jsstring" where
  "js_trim s = rev (dropWhile isWhiteSpace (rev (dropWhile isWhiteSpace s)))"

text \<open>
  \<^verbatim>\<open>Array.prototype.slice(start, end)\<close>: a negative index counts from the end, every
  index is clamped to the array, a missing \<^verbatim>\<open>end\<close> is the length.
\<close>

definition js_slice :: "'a list \<Rightarrow> int \<Rightarrow> int option \<Rightarrow> 'a list" where
  "js_slice xs start end_opt =
     (let len = int (length xs);
          k = (if start < 0 then max (len + start) 0 else min start len);
          final = (case end_opt of
                     None \<Rightarrow> len
                   | Some e \<Rightarrow> if e < 0 then max (len + e) 0 else min e len)
      in take (nat (final - k)) (drop (nat k) xs))"

subsection \<open>Helpers of \<^verbatim>\<open>../utils/textUtils.js\<close>\<close>

text \<open>
  Modelled from the spec: \<^verbatim>\<open>cpLen\<close>, the helper of \<^verbatim>\<open>../utils/textUtils.js\<close>
  that the dialog imports; the length of a string in Unicode code points.
\<close>

definition cpLen :: "jsstring \<Rightarrow> int" where
  "cpLen str = int (length str)"

text \<open>
  Modelled from the spec: \<^verbatim>\<open>cpSlice\<close>, the helper of \<^verbatim>\<open>../utils/textUtils.js\<close>
  that the dialog imports; the slice of a string addressed in code points, with the
  index conventions of a JavaScript array slice.
\<close>

definition cpSlice :: "jsstring \<Rightarrow> int \<Rightarrow> int option \<Rightarrow> jsstring" where
  "cpSlice str start end_opt = js_slice str start end_opt"

text \<open>
  Modelled from the spec: \<^verbatim>\<open>stripUnsafeCharacters\<close>, the helper of
  \<^verbatim>\<open>../utils/textUtils.js\<close> that the dialog imports; it strips control characters
  (here the Unicode control code points: C0, DEL and C1) from a string and keeps
  every other code point in order.
\<close>

definition isUnsafe :: "nat \<Rightarrow> bool" where
  "isUnsafe c \<longleftrightarrow> c < 32 \<or> (127 \<le> c \<and> c \<le> 159)"

definition stripUnsafeCharacters :: "jsstring \<Rightarrow> jsstring" where
  "stripUnsafeCharacters str = filter (\<lambda>c. \<not> isUnsafe c) str"

section \<open>Data model of the dialog\<close>

datatype Platform = Windows | Linux

record ProductSettings =
  name :: jsstring
  styleReferenceUrl :: jsstring
  platform :: Platform
  modules :: "jsstring list"

definition DEFAULT_SETTINGS :: ProductSettings where
  "DEFAULT_SETTINGS =
     \<lparr>ProductSettings.name = js ''new-project'', styleReferenceUrl = [], platform = Windows, modules = []\<rparr>"

datatype FocusMode = FocusSettings | FocusActions

datatype EditingField = FieldName

text \<open>The component's state: one field for each \<^verbatim>\<open>useState\<close> cell.\<close>

record DialogState =
  settings :: ProductSettings
  focusMode :: FocusMode
  actionIndex :: int
  editingField :: "EditingField option"
  editBuffer :: jsstring
  editCursorPos :: int
  cursorVisible :: bool

definition initialState :: DialogState where
  "initialState =
     \<lparr>settings = DEFAULT_SETTINGS, focusMode = FocusSettings, actionIndex = 0,
      editingField = None, editBuffer = [], editCursorPos = 0, cursorVisible = True\<rparr>"

text \<open>A key event as \<^verbatim>\<open>useKeypress\<close> delivers it (the fields the handler reads).\<close>

record Key =
  name :: string
  sequence :: jsstring
  paste :: bool

section \<open>The environment: file system and result callback\<close>

text \<open>
  The synchronous \<^verbatim>\<open>node:fs\<close> calls act on a tree of directories and files; a call
  either returns or throws. \<open>denied\<close> marks the paths whose creation, reading or
  writing the operating system refuses. A path is the list of its components, so
  \<^verbatim>\<open>path.join(p, c)\<close> is \<open>p @ [c]\<close>.
\<close>

datatype io_error = ENOENT | ENOTDIR | EISDIR | EACCES | EEXIST

datatype node = Dir | File jsstring

type_synonym path = "string list"

record FileSystem =
  nodes :: "path \<Rightarrow> node option"
  denied :: "path \<Rightarrow> bool"

definition existsSync :: "FileSystem \<Rightarrow> path \<Rightarrow> bool" where
  "existsSync fs p \<longleftrightarrow> nodes fs p \<noteq> None"

definition readFileSync :: "FileSystem \<Rightarrow> path \<Rightarrow> io_error + jsstring" where
  "readFileSync fs p =
     (case nodes fs p of
        None \<Rightarrow> Inl ENOENT
      | Some Dir \<Rightarrow> Inl EISDIR
      | Some (File c) \<Rightarrow> if denied fs p then Inl EACCES else Inr c)"

text \<open>
  \<^verbatim>\<open>mkdirSync(p, {recursive: true})\<close> walks the ancestors of \<open>p\<close> from the root and
  creates the missing ones; the file system it leaves behind is returned also when
  it throws (second component \<open>Some e\<close>).
\<close>

fun mkdirs :: "FileSystem \<Rightarrow> path list \<Rightarrow> FileSystem \<times> io_error option" where
  "mkdirs fs [] = (fs, None)"
| "mkdirs fs (q # qs) =
     (case nodes fs q of
        Some Dir \<Rightarrow> mkdirs fs qs
      | Some (File c) \<Rightarrow> (fs, Some (if qs = [] then EEXIST else ENOTDIR))
      | None \<Rightarrow>
          if denied fs q then (fs, Some EACCES)
          else mkdirs (fs\<lparr>nodes := (nodes fs)(q \<mapsto> Dir)\<rparr>) qs)"

definition mkdirSync_recursive :: "FileSystem \<Rightarrow> path \<Rightarrow> FileSystem \<times> io_error option" where
  "mkdirSync_recursive fs p = mkdirs fs (prefixes p)"

definition writeFileSync :: "FileSystem \<Rightarrow> path \<Rightarrow> jsstring \<Rightarrow> FileSystem \<times> io_error option" where
  "writeFileSync fs p content =
     (case nodes fs (butlast p) of
        None \<Rightarrow> (fs, Some ENOENT)
      | Some (File c) \<Rightarrow> (fs, Some ENOTDIR)
      | Some Dir \<Rightarrow>
          if nodes fs p = Some Dir then (fs, Some EISDIR)
          else if denied fs p then (fs, Some EACCES)
          else (fs\<lparr>nodes := (nodes fs)(p \<mapsto> File content)\<rparr>, None))"

text \<open>
  The environment of the dialog: the file system and the calls of the result callback
  \<^verbatim>\<open>onSelect\<close> made so far, oldest first (\<open>None\<close> is \<^verbatim>\<open>undefined\<close>). The
  callback records its argument and returns; it does not throw.
\<close>

record Env =
  fsys :: FileSystem
  onSelectCalls :: "ProductSettings option list"

definition onSelect :: "ProductSettings option \<Rightarrow> Env \<Rightarrow> Env" where
  "onSelect r env = env\<lparr>onSelectCalls := onSelectCalls env @ [r]\<rparr>"

text \<open>
  The built-in \<^verbatim>\<open>JSON\<close> object is a parameter of the model. A parsed value is seen
  through the \<^verbatim>\<open>ProductSettings\<close> interface: which of the four keys it has, and
  their values; \<open>parse\<close> is \<open>None\<close> where \<^verbatim>\<open>JSON.parse\<close> throws.
\<close>

record LoadedObject =
  loaded_name :: "jsstring option"
  loaded_styleReferenceUrl :: "jsstring option"
  loaded_platform :: "Platform option"
  loaded_modules :: "jsstring list option"

record JSON =
  stringify :: "ProductSettings \<Rightarrow> jsstring"
  parse :: "jsstring \<Rightarrow> LoadedObject option"

section \<open>The dialog's operations\<close>

text \<open>The object spread \<^verbatim>\<open>{ ...DEFAULT_SETTINGS, ...loaded }\<close>.\<close>

definition spread :: "ProductSettings \<Rightarrow> LoadedObject \<Rightarrow> ProductSettings" where
  "spread d l =
     \<lparr>ProductSettings.name = (case loaded_name l of None \<Rightarrow> ProductSettings.name d | Some v \<Rightarrow> v),
      styleReferenceUrl =
        (case loaded_styleReferenceUrl l of None \<Rightarrow> styleReferenceUrl d | Some v \<Rightarrow> v),
      platform = (case loaded_platform l of None \<Rightarrow> platform d | Some v \<Rightarrow> v),
      modules = (case loaded_modules l of None \<Rightarrow> modules d | Some v \<Rightarrow> v)\<rparr>"

definition settingsPath :: "path \<Rightarrow> path" where
  "settingsPath workingDirectory = workingDirectory @ [''.aaagent''] @ [''product-settings.json'']"

text \<open>
  The load effect (run on mount). The \<^verbatim>\<open>try\<close> block throws where \<^verbatim>\<open>readFileSync\<close>
  or \<^verbatim>\<open>JSON.parse\<close> throws; the \<^verbatim>\<open>catch\<close> block only logs, so the state stays
  as it was.
\<close>

definition loadSettings :: "JSON \<Rightarrow> path \<Rightarrow> FileSystem \<Rightarrow> DialogState \<Rightarrow> DialogState" where
  "loadSettings json workingDirectory fs s =
     (if existsSync fs (settingsPath workingDirectory) then
        (case readFileSync fs (settingsPath workingDirectory) of
           Inl e \<Rightarrow> s
         | Inr content \<Rightarrow>
             (case parse json content of
                None \<Rightarrow> s
              | Some loaded \<Rightarrow> s\<lparr>settings := spread DEFAULT_SETTINGS loaded\<rparr>))
      else s)"

definition startEditing :: "EditingField option \<Rightarrow> jsstring \<Rightarrow> DialogState \<Rightarrow> DialogState" where
  "startEditing field initial s =
     s\<lparr>editingField := field, editBuffer := initial, editCursorPos := cpLen initial\<rparr>"

text \<open>
  The keypress handler is a closure of one render: it reads the values of that
  render (\<open>c\<close>, the state the component was rendered with) and queues updates,
  which React applies to the current state (\<open>s\<close>); an updater function
  \<^verbatim>\<open>(prev) => ...\<close> receives the current value. Right after a render \<open>c\<close> and
  \<open>s\<close> coincide; for a key that arrives before the component has re-rendered
  (several keys read from the terminal in one chunk), \<open>c\<close> is still the render
  before the previous key and \<open>s\<close> already holds that key's updates.
\<close>

text \<open>
  \<^verbatim>\<open>commitEdit\<close> reads \<^verbatim>\<open>editingField\<close> and \<^verbatim>\<open>editBuffer\<close> of the render; the
  name is set through an updater of the settings.
\<close>

definition commitEdit :: "DialogState \<Rightarrow> DialogState \<Rightarrow> DialogState" where
  "commitEdit c s =
     (if editingField c = None then s
      else
        let trimmed = js_trim (editBuffer c) in
        if trimmed = [] then s\<lparr>editingField := None, editBuffer := [], editCursorPos := 0\<rparr>
        else
          (let s1 = (if editingField c = Some FieldName
                     then s\<lparr>settings := (settings s)\<lparr>ProductSettings.name := trimmed\<rparr>\<rparr>
                     else s)
           in s1\<lparr>editingField := None, editBuffer := [], editCursorPos := 0\<rparr>))"

text \<open>
  \<^verbatim>\<open>saveSettings\<close>: the body of the \<^verbatim>\<open>try\<close> block either completes (\<open>Inr\<close>) or
  throws (\<open>Inl\<close>, with the environment at that point); the \<^verbatim>\<open>catch\<close> block calls
  \<^verbatim>\<open>onSelect(undefined)\<close>. The settings it writes and reports are those of the
  state it is given (in the keypress handler, the render).
\<close>

definition saveSettings_try :: "JSON \<Rightarrow> path \<Rightarrow> DialogState \<Rightarrow> Env \<Rightarrow> (io_error \<times> Env) + Env" where
  "saveSettings_try json workingDirectory s env =
     (let aaagentDir = workingDirectory @ [''.aaagent''];
          settingsPath = aaagentDir @ [''product-settings.json''];
          (fs1, thrown1) =
             (if \<not> existsSync (fsys env) aaagentDir
              then mkdirSync_recursive (fsys env) aaagentDir
              else (fsys env, None))
      in case thrown1 of
           Some e \<Rightarrow> Inl (e, env\<lparr>fsys := fs1\<rparr>)
         | None \<Rightarrow>
             (case writeFileSync fs1 settingsPath (stringify json (settings s)) of
                (fs2, Some e) \<Rightarrow> Inl (e, env\<lparr>fsys := fs2\<rparr>)
              | (fs2, None) \<Rightarrow> Inr (onSelect (Some (settings s)) (env\<lparr>fsys := fs2\<rparr>))))"

definition saveSettings :: "JSON \<Rightarrow> path \<Rightarrow> DialogState \<Rightarrow> Env \<Rightarrow> Env" where
  "saveSettings json workingDirectory s env =
     (case saveSettings_try json workingDirectory s env of
        Inr env' \<Rightarrow> env'
      | Inl (e, env') \<Rightarrow> onSelect None env')"

text \<open>
  The keypress handler, first block: \<^verbatim>\<open>if (editingField) { ... return; }\<close>. It only
  updates the editing state. The guards, the slice indices and \<^verbatim>\<open>cpLen(editBuffer)\<close>
  are the render's (\<open>editCursorPos c\<close>, \<open>editBuffer c\<close>); the arguments \<^verbatim>\<open>b\<close> and
  \<^verbatim>\<open>pos\<close> of the updater functions are the current buffer and cursor
  (\<open>editBuffer s\<close>, \<open>editCursorPos s\<close>).
\<close>

definition handleEditingKey :: "DialogState \<Rightarrow> DialogState \<Rightarrow> Key \<Rightarrow> DialogState" where
  "handleEditingKey c s key =
     (let editCursorPos_c = editCursorPos c; editBuffer_c = editBuffer c;
          b = editBuffer s; pos = editCursorPos s in
      if paste key \<and> sequence key \<noteq> [] then
        (let pasted = stripUnsafeCharacters (sequence key) in
         if pasted \<noteq> [] then
           s\<lparr>editBuffer := cpSlice b 0 (Some editCursorPos_c) @ pasted @
                            cpSlice b editCursorPos_c None,
             editCursorPos := pos + cpLen pasted\<rparr>
         else s)
      else if Key.name key = ''backspace'' \<and> editCursorPos_c > 0 then
        s\<lparr>editBuffer := cpSlice b 0 (Some (editCursorPos_c - 1)) @ cpSlice b editCursorPos_c None,
          editCursorPos := pos - 1\<rparr>
      else if Key.name key = ''delete'' \<and> editCursorPos_c < cpLen editBuffer_c then
        s\<lparr>editBuffer := cpSlice b 0 (Some editCursorPos_c) @
                         cpSlice b (editCursorPos_c + 1) None\<rparr>
      else if Key.name key = ''escape'' then
        s\<lparr>editingField := None, editBuffer := [], editCursorPos := 0\<rparr>
      else if Key.name key = ''return'' then commitEdit c s
      else if Key.name key = ''left'' then s\<lparr>editCursorPos := max 0 (pos - 1)\<rparr>
      else if Key.name key = ''right'' then
        s\<lparr>editCursorPos := min (cpLen editBuffer_c) (pos + 1)\<rparr>
      else if Key.name key = ''home'' then s\<lparr>editCursorPos := 0\<rparr>
      else if Key.name key = ''end'' then s\<lparr>editCursorPos := cpLen editBuffer_c\<rparr>
      else
        (let ch = stripUnsafeCharacters (sequence key) in
         if js_length ch = 1 then
           s\<lparr>editBuffer := cpSlice b 0 (Some editCursorPos_c) @ ch @
                            cpSlice b editCursorPos_c None,
             editCursorPos := pos + 1\<rparr>
         else s))"

text \<open>
  The whole keypress handler: \<open>c\<close> is the render whose closure handles the event,
  the pair holds the current state and the environment. The mode, the focused
  region, the action index and the settings that \<^verbatim>\<open>saveSettings\<close> writes are the
  render's; the focus toggle is an updater.
\<close>

definition handleKeypress ::
    "JSON \<Rightarrow> path \<Rightarrow> DialogState \<Rightarrow> DialogState \<times> Env \<Rightarrow> Key \<Rightarrow> DialogState \<times> Env" where
  "handleKeypress json workingDirectory c se key =
     (let s = fst se; env = snd se in
      if editingField c \<noteq> None then (handleEditingKey c s key, env)
      else if Key.name key = ''tab'' then
        (s\<lparr>focusMode := (if focusMode s = FocusSettings then FocusActions else FocusSettings)\<rparr>,
         env)
      else if Key.name key = ''escape'' then (s, onSelect None env)
      else if focusMode c = FocusActions then
        (if Key.name key = ''left'' \<or> Key.name key = ''h'' then (s\<lparr>actionIndex := 0\<rparr>, env)
         else if Key.name key = ''right'' \<or> Key.name key = ''l'' then (s\<lparr>actionIndex := 1\<rparr>, env)
         else if Key.name key = ''return'' then
           (if actionIndex c = 0 then (s, saveSettings json workingDirectory c env)
            else (s, onSelect None env))
         else (s, env))
      else (s, env))"

text \<open>\<^verbatim>\<open>handleSettingSelect\<close>, the callback of the settings list.\<close>

definition handleSettingSelect :: "DialogState \<Rightarrow> string \<Rightarrow> DialogState" where
  "handleSettingSelect s v =
     (if editingField s \<noteq> None then s
      else if v = ''name'' then
        startEditing (Some FieldName) (ProductSettings.name (settings s)) s
      else if v = ''platform-windows'' then s\<lparr>settings := (settings s)\<lparr>platform := Windows\<rparr>\<rparr>
      else if v = ''platform-linux'' then s\<lparr>settings := (settings s)\<lparr>platform := Linux\<rparr>\<rparr>
      else if v = ''module-sqlite'' then
        s\<lparr>settings := (settings s)\<lparr>modules :=
             (if js ''sqlite'' \<in> set (modules (settings s))
              then filter (\<lambda>m. m \<noteq> js ''sqlite'') (modules (settings s))
              else modules (settings s) @ [js ''sqlite''])\<rparr>\<rparr>
      else if v = ''module-i18n'' then
        s\<lparr>settings := (settings s)\<lparr>modules :=
             (if js ''i18n'' \<in> set (modules (settings s))
              then filter (\<lambda>m. m \<noteq> js ''i18n'') (modules (settings s))
              else modules (settings s) @ [js ''i18n''])\<rparr>\<rparr>
      else s)"

section \<open>Invariant of the editing state and example inputs\<close>

text \<open>
  The editing state is consistent when the cursor lies within the buffer (the end
  position included) and, while no field is being edited, buffer and cursor are
  reset.
\<close>

definition sessionInv :: "DialogState \<Rightarrow> bool" where
  "sessionInv s \<longleftrightarrow>
     0 \<le> editCursorPos s \<and> editCursorPos s \<le> cpLen (editBuffer s) \<and>
     (editingField s = None \<longrightarrow> editBuffer s = [] \<and> editCursorPos s = 0)"

text \<open>
  Concrete inputs on which the theorems below are instantiated. \<open>exampleJSON\<close> is a
  stand-in for the built-in \<^verbatim>\<open>JSON\<close> object: it writes the four fields in order
  (without escaping) and parses two file contents.
\<close>

definition exampleJSON :: JSON where
  "exampleJSON =
     \<lparr>stringify =
        (\<lambda>st. js ''{name:'' @ ProductSettings.name st @ js '',styleReferenceUrl:'' @
                styleReferenceUrl st @ js '',platform:'' @
                (case platform st of Windows \<Rightarrow> js ''Windows'' | Linux \<Rightarrow> js ''Linux'') @
                js '',modules:'' @ concat (map (\<lambda>m. m @ js '';'') (modules st)) @ js ''}''),
      parse =
        (\<lambda>c. if c = js ''{\"platform\":\"Linux\"}''
              then Some \<lparr>loaded_name = None, loaded_styleReferenceUrl = None,
                         loaded_platform = Some Linux, loaded_modules = None\<rparr>
              else if c = js ''{\"modules\":[\"i18n\",\"i18n\"]}''
              then Some \<lparr>loaded_name = None, loaded_styleReferenceUrl = None,
                         loaded_platform = None,
                         loaded_modules = Some [js ''i18n'', js ''i18n'']\<rparr>
              else None)\<rparr>"

definition exampleFS :: "jsstring \<Rightarrow> FileSystem" where
  "exampleFS content =
     \<lparr>nodes = [[] \<mapsto> Dir, [''work''] \<mapsto> Dir, [''work'', ''.aaagent''] \<mapsto> Dir,
               [''work'', ''.aaagent'', ''product-settings.json''] \<mapsto> File content],
      denied = (\<lambda>p. False)\<rparr>"

definition exampleDuplicates :: DialogState where
  "exampleDuplicates =
     initialState\<lparr>settings := DEFAULT_SETTINGS\<lparr>modules := [js ''i18n'', js ''i18n'']\<rparr>\<rparr>"

definition exampleEnv :: Env where
  "exampleEnv =
     \<lparr>fsys = \<lparr>nodes = [[] \<mapsto> Dir, [''work''] \<mapsto> Dir], denied = (\<lambda>p. False)\<rparr>,
      onSelectCalls = []\<rparr>"

definition exampleDeniedEnv :: Env where
  "exampleDeniedEnv =
     \<lparr>fsys = \<lparr>nodes = [[] \<mapsto> Dir, [''work''] \<mapsto> Dir], denied = (\<lambda>p. True)\<rparr>,
      onSelectCalls = []\<rparr>"

definition exampleEditing :: "jsstring \<Rightarrow> int \<Rightarrow> DialogState" where
  "exampleEditing buf pos =
     initialState\<lparr>editingField := Some FieldName, editBuffer := buf, editCursorPos := pos\<rparr>"

section \<open>Basic facts about strings and the handler\<close>

lemma cpSlice_prefix: "0 \<le> k \<Longrightarrow> cpSlice b 0 (Some k) = take (nat k) b"
  by (auto simp add: cpSlice_def js_slice_def Let_def min_def)

lemma cpSlice_suffix: "0 \<le> k \<Longrightarrow> cpSlice b k None = drop (nat k) b"
  by (auto simp add: cpSlice_def js_slice_def Let_def min_def)

lemma js_length_Nil: "js_length [] = 0"
  by (simp add: js_length_def)

lemma cpLen_nonneg: "0 \<le> cpLen str"
  by (simp add: cpLen_def)

lemma js_length_Cons: "js_length (c # cs) = (if c < 65536 then 1 else 2) + js_length cs"
  by (simp add: js_length_def)

lemma js_length_nonneg: "0 \<le> js_length s"
  by (induction s) (simp_all add: js_length_Cons, simp add: js_length_def)

lemma js_length_pos: "s \<noteq> [] \<Longrightarrow> 0 < js_length s"
  using js_length_nonneg [of "tl s"] by (cases s) (simp_all add: js_length_Cons)

lemma js_length_one_iff: "js_length ch = 1 \<longleftrightarrow> (\<exists>c. ch = [c] \<and> c < 65536)"
proof (cases ch)
  case Nil
  then show ?thesis by (simp add: js_length_def)
next
  case outer: (Cons c cs)
  show ?thesis
  proof (cases cs)
    case Nil
    with outer show ?thesis by (simp add: js_length_def)
  next
    case (Cons d ds)
    then have "0 < js_length cs" by (simp add: js_length_pos)
    then show ?thesis using Cons outer by (simp add: js_length_Cons)
  qed
qed

lemma handleKeypress_editing:
  "editingField c \<noteq> None \<Longrightarrow>
     handleKeypress json wd c (s, env) k = (handleEditingKey c s k, env)"
  by (simp add: handleKeypress_def Let_def)

section \<open>Cursor movement\<close>

text \<open>
  What the arrow keys do in an edit session: left sets the cursor to
  \<open>max 0 (pos - 1)\<close>; right sets it to \<open>min len (pos + 1)\<close> where \<open>len\<close> is the
  length of the buffer of the render, not of the current buffer. Nothing else
  changes.
\<close>

lemma arrow_keys_cursor:
  assumes "editingField c \<noteq> None" and "\<not> (paste k \<and> sequence k \<noteq> [])"
  shows "(Key.name k = ''right'' \<longrightarrow>
           handleKeypress json wd c (s, env) k =
             (s\<lparr>editCursorPos := min (cpLen (editBuffer c)) (editCursorPos s + 1)\<rparr>, env)) \<and>
         (Key.name k = ''left'' \<longrightarrow>
           handleKeypress json wd c (s, env) k =
             (s\<lparr>editCursorPos := max 0 (editCursorPos s - 1)\<rparr>, env))"
  using assms by (auto simp add: handleKeypress_def handleEditingKey_def Let_def)

text \<open>
  Claim C9: while an edit session is open, a right-arrow event sets the cursor to
  \<open>min (p + 1) len\<close>, with \<open>len\<close> the code point length of the buffer, and leaves
  the buffer unchanged. The handler clamps against the length of the buffer of its
  render. With buffer \<^verbatim>\<open>ab\<close> and cursor 2, a backspace and a right arrow handled
  by the same render: the backspace leaves buffer \<^verbatim>\<open>a\<close> and cursor 1, and the
  right arrow then sets the cursor to 2, beyond the end of the buffer of length 1.
\<close>

theorem right_arrow_clamps_to_stale_length:
  "handleKeypress exampleJSON [''work''] (exampleEditing (js ''ab'') 2)
      (exampleEditing (js ''ab'') 2, exampleEnv)
      \<lparr>Key.name = ''backspace'', sequence = [127], paste = False\<rparr>
     = (exampleEditing (js ''a'') 1, exampleEnv) \<and>
   handleKeypress exampleJSON [''work''] (exampleEditing (js ''ab'') 2)
      (exampleEditing (js ''a'') 1, exampleEnv)
      \<lparr>Key.name = ''right'', sequence = [27, 91, 67], paste = False\<rparr>
     = (exampleEditing (js ''a'') 2, exampleEnv) \<and>
   cpLen (js ''a'') = 1 \<and> min (1 + 1) (cpLen (js ''a'')) = 1"
  by (simp add: handleKeypress_def handleEditingKey_def exampleEditing_def Let_def js_def
      cpLen_def cpSlice_def js_slice_def)

section \<open>Deleting at the ends of the buffer\<close>



section \<open>The two scopes of escape\<close>



section \<open>Committing an edit\<close>

text \<open>
  What the return key does in an edit session: it runs \<^verbatim>\<open>commitEdit\<close> and touches
  nothing else. \<^verbatim>\<open>commitEdit\<close> trims the buffer of the render: if that is empty
  the settings are unchanged, otherwise it becomes the name; the session is closed
  in both cases.
\<close>

lemma return_key_commits:
  assumes "editingField c = Some FieldName" and "Key.name k = ''return''"
    and "\<not> (paste k \<and> sequence k \<noteq> [])"
  shows "handleKeypress json wd c (s, env) k = (commitEdit c s, env) \<and>
         commitEdit c s =
           (if js_trim (editBuffer c) = []
            then s\<lparr>editingField := None, editBuffer := [], editCursorPos := 0\<rparr>
            else s\<lparr>settings := (settings s)\<lparr>ProductSettings.name := js_trim (editBuffer c)\<rparr>,
                   editingField := None, editBuffer := [], editCursorPos := 0\<rparr>)"
  using assms by (auto simp add: handleKeypress_def handleEditingKey_def commitEdit_def Let_def)

text \<open>
  Claim C6: a commit of a buffer whose trimmed contents are empty leaves the
  settings unchanged and closes the session; a commit of a buffer whose trimmed
  contents are not empty stores the trimmed string into the name and closes the
  session. The handler commits the buffer of its render, not the current buffer.
  With buffer \<^verbatim>\<open>ab\<close> and cursor 2, the key \<^verbatim>\<open>x\<close> and the return key handled by the
  same render: the first leaves buffer \<^verbatim>\<open>abx\<close>, and the commit then stores
  \<^verbatim>\<open>ab\<close>.
\<close>

theorem commit_stores_stale_buffer:
  "handleKeypress exampleJSON [''work''] (exampleEditing (js ''ab'') 2)
      (exampleEditing (js ''ab'') 2, exampleEnv)
      \<lparr>Key.name = ''x'', sequence = js ''x'', paste = False\<rparr>
     = (exampleEditing (js ''abx'') 3, exampleEnv) \<and>
   handleKeypress exampleJSON [''work''] (exampleEditing (js ''ab'') 2)
      (exampleEditing (js ''abx'') 3, exampleEnv)
      \<lparr>Key.name = ''return'', sequence = [13], paste = False\<rparr>
     = (initialState\<lparr>settings := DEFAULT_SETTINGS\<lparr>ProductSettings.name := js ''ab''\<rparr>\<rparr>,
        exampleEnv) \<and>
   js_trim (js ''abx'') = js ''abx''"
  by (simp add: handleKeypress_def handleEditingKey_def commitEdit_def exampleEditing_def
      initialState_def Let_def js_def cpLen_def cpSlice_def js_slice_def js_length_def
      stripUnsafeCharacters_def isUnsafe_def js_trim_def isWhiteSpace_def)

section \<open>The editing state stays consistent\<close>

lemma sessionInv_reset:
  "sessionInv (s\<lparr>editingField := None, editBuffer := [], editCursorPos := 0\<rparr>)"
  by (simp add: sessionInv_def cpLen_def)

lemma sessionInv_commitEdit: "sessionInv s \<Longrightarrow> sessionInv (commitEdit c s)"
  by (simp add: commitEdit_def Let_def sessionInv_def cpLen_def)

lemma sessionInv_insert:
  assumes "sessionInv s" and "editingField s \<noteq> None"
  shows "sessionInv (s\<lparr>editBuffer := cpSlice (editBuffer s) 0 (Some (editCursorPos s)) @ t @
                                      cpSlice (editBuffer s) (editCursorPos s) None,
                        editCursorPos := editCursorPos s + int (length t)\<rparr>)"
  using assms by (auto simp add: sessionInv_def cpLen_def cpSlice_prefix cpSlice_suffix)

lemma sessionInv_backspace:
  assumes "sessionInv s" and "editingField s \<noteq> None" and "0 < editCursorPos s"
  shows "sessionInv (s\<lparr>editBuffer := cpSlice (editBuffer s) 0 (Some (editCursorPos s - 1)) @
                                      cpSlice (editBuffer s) (editCursorPos s) None,
                        editCursorPos := editCursorPos s - 1\<rparr>)"
  using assms by (auto simp add: sessionInv_def cpLen_def cpSlice_prefix cpSlice_suffix)

lemma sessionInv_delete:
  assumes "sessionInv s" and "editingField s \<noteq> None" and "editCursorPos s < cpLen (editBuffer s)"
  shows "sessionInv (s\<lparr>editBuffer := cpSlice (editBuffer s) 0 (Some (editCursorPos s)) @
                                      cpSlice (editBuffer s) (editCursorPos s + 1) None\<rparr>)"
  using assms by (auto simp add: sessionInv_def cpLen_def cpSlice_prefix cpSlice_suffix)

lemma sessionInv_cursor:
  assumes "sessionInv s" and "editingField s \<noteq> None" and "0 \<le> p" and "p \<le> cpLen (editBuffer s)"
  shows "sessionInv (s\<lparr>editCursorPos := p\<rparr>)"
  using assms by (auto simp add: sessionInv_def)

text \<open>
  An event handled by the closure of the render of the current state (\<open>c = s\<close>)
  keeps the editing state consistent.
\<close>

lemma sessionInv_handleEditingKey_rendered:
  assumes inv: "sessionInv s" and ed: "editingField s \<noteq> None"
  shows "sessionInv (handleEditingKey s s k)"
proof -
  have p: "0 \<le> editCursorPos s" "editCursorPos s \<le> cpLen (editBuffer s)"
    using inv by (simp_all add: sessionInv_def)
  have ins: "sessionInv (s\<lparr>editBuffer := cpSlice (editBuffer s) 0 (Some (editCursorPos s)) @ t @
                                      cpSlice (editBuffer s) (editCursorPos s) None,
                        editCursorPos := editCursorPos s + cpLen t\<rparr>)" for t
    using sessionInv_insert [OF inv ed] by (simp add: cpLen_def)
  have ins1: "js_length t = 1 \<Longrightarrow> sessionInv (s\<lparr>editBuffer := cpSlice (editBuffer s) 0 (Some (editCursorPos s)) @ t @
                                      cpSlice (editBuffer s) (editCursorPos s) None,
                        editCursorPos := editCursorPos s + 1\<rparr>)" for t
    using sessionInv_insert [OF inv ed, of t] by (auto simp add: js_length_one_iff)
  show ?thesis
    unfolding handleEditingKey_def Let_def
    using p inv ed
    by (auto simp add: ins ins1 sessionInv_backspace sessionInv_delete sessionInv_reset
        sessionInv_commitEdit sessionInv_cursor js_length_Nil cpLen_nonneg)
qed

lemma sessionInv_initialState: "sessionInv initialState"
  by (simp add: sessionInv_def initialState_def cpLen_def)

lemma sessionInv_rendered_operations:
  assumes "sessionInv s"
  shows "sessionInv (startEditing (Some f) initial s) \<and>
         sessionInv (commitEdit s s) \<and>
         sessionInv (handleSettingSelect s v) \<and>
         sessionInv (fst (handleKeypress json wd s (s, env) k))"
proof -
  have 1: "sessionInv (startEditing (Some f) initial s)"
    by (simp add: startEditing_def sessionInv_def cpLen_nonneg)
  have 2: "sessionInv (handleSettingSelect s v)"
    using assms by (simp add: handleSettingSelect_def sessionInv_def startEditing_def cpLen_nonneg)
  have 3: "sessionInv (fst (handleKeypress json wd s (s, env) k))"
  proof (cases "editingField s = None")
    case True
    have "editingField (fst (handleKeypress json wd s (s, env) k)) = editingField s \<and>
          editBuffer (fst (handleKeypress json wd s (s, env) k)) = editBuffer s \<and>
          editCursorPos (fst (handleKeypress json wd s (s, env) k)) = editCursorPos s"
      using True by (simp add: handleKeypress_def Let_def)
    then show ?thesis using assms by (simp add: sessionInv_def)
  next
    case False
    then show ?thesis
      using sessionInv_handleEditingKey_rendered [OF assms False, of k]
      by (simp add: handleKeypress_def Let_def)
  qed
  show ?thesis using assms 1 2 3 by (simp add: sessionInv_commitEdit)
qed

text \<open>
  Claim C2: every edit-session operation preserves that the cursor position is an
  integer in \<open>[0, cpLen buffer]\<close>. The backspace branch tests the cursor of its
  render and decrements the current cursor. With buffer \<^verbatim>\<open>a\<close> and cursor 1, two
  backspace events handled by the same render: the first leaves the empty buffer
  and cursor 0, the second passes the guard again and leaves cursor -1.
\<close>

theorem batched_backspaces_cursor_negative:
  "0 \<le> editCursorPos (exampleEditing (js ''a'') 1) \<and>
   editCursorPos (exampleEditing (js ''a'') 1) \<le> cpLen (editBuffer (exampleEditing (js ''a'') 1)) \<and>
   handleKeypress exampleJSON [''work''] (exampleEditing (js ''a'') 1)
      (exampleEditing (js ''a'') 1, exampleEnv)
      \<lparr>Key.name = ''backspace'', sequence = [127], paste = False\<rparr>
     = (exampleEditing [] 0, exampleEnv) \<and>
   handleKeypress exampleJSON [''work''] (exampleEditing (js ''a'') 1)
      (exampleEditing [] 0, exampleEnv)
      \<lparr>Key.name = ''backspace'', sequence = [127], paste = False\<rparr>
     = (exampleEditing [] (- 1), exampleEnv) \<and>
   editCursorPos (exampleEditing [] (- 1)) < 0"
  by (simp add: handleKeypress_def handleEditingKey_def exampleEditing_def Let_def js_def
      cpLen_def cpSlice_def js_slice_def)

section \<open>Paste and backspace\<close>

text \<open>
  A paste with a payload inserts the sanitised payload at the cursor of the
  render; whatever the render, the buffer grows by the number of sanitised code
  points and the cursor advances by as many.
\<close>

lemma paste_inserts:
  assumes "editingField c \<noteq> None" and "0 \<le> editCursorPos c"
    and "paste k" and "sequence k \<noteq> []"
  shows "handleKeypress json wd c (s, env) k =
           (s\<lparr>editBuffer := take (nat (editCursorPos c)) (editBuffer s) @
                             stripUnsafeCharacters (sequence k) @
                             drop (nat (editCursorPos c)) (editBuffer s),
               editCursorPos := editCursorPos s + cpLen (stripUnsafeCharacters (sequence k))\<rparr>,
            env) \<and>
         cpLen (editBuffer (fst (handleKeypress json wd c (s, env) k))) =
           cpLen (editBuffer s) + cpLen (stripUnsafeCharacters (sequence k))"
proof -
  let ?t = "stripUnsafeCharacters (sequence k)"
  let ?s1 = "s\<lparr>editBuffer := take (nat (editCursorPos c)) (editBuffer s) @ ?t @
                             drop (nat (editCursorPos c)) (editBuffer s),
               editCursorPos := editCursorPos s + cpLen ?t\<rparr>"
  have eq: "handleKeypress json wd c (s, env) k = (?s1, env)"
  proof (cases "?t = []")
    case True
    then have "?s1 = s" by (simp add: cpLen_def)
    then show ?thesis using assms True
      by (simp add: handleKeypress_editing handleEditingKey_def Let_def)
  next
    case False
    then show ?thesis using assms
      by (simp add: handleKeypress_editing handleEditingKey_def Let_def cpSlice_prefix
          cpSlice_suffix)
  qed
  have "length (take (nat (editCursorPos c)) (editBuffer s)) +
        length (drop (nat (editCursorPos c)) (editBuffer s)) = length (editBuffer s)"
    by simp
  then have "cpLen (editBuffer ?s1) = cpLen (editBuffer s) + cpLen ?t"
    unfolding cpLen_def by (simp del: length_take length_drop)
  then show ?thesis using eq by simp
qed

text \<open>
  Backspace events, each handled after the component has re-rendered with the
  state the previous one left (the render is the current state at every step),
  remove the code points before the cursor one by one.
\<close>

lemma backspace_step:
  assumes "editingField s \<noteq> None" and "Key.name bk = ''backspace''"
    and "\<not> (paste bk \<and> sequence bk \<noteq> [])"
    and "editBuffer s = xs @ y # zs" and "editCursorPos s = int (length xs) + 1"
  shows "handleEditingKey s s bk = s\<lparr>editBuffer := xs @ zs, editCursorPos := int (length xs)\<rparr>"
proof -
  have "nat (int (length xs) + 1) = Suc (length xs)" by simp
  then show ?thesis
    using assms by (auto simp add: handleEditingKey_def Let_def cpSlice_prefix cpSlice_suffix)
qed

lemma backspaces_remove:
  assumes "Key.name bk = ''backspace''" and "\<not> (paste bk \<and> sequence bk \<noteq> [])"
  shows "editingField s \<noteq> None \<Longrightarrow> editBuffer s = xs @ ys @ zs \<Longrightarrow>
         editCursorPos s = int (length xs) + int (length ys) \<Longrightarrow>
         ((\<lambda>se. handleKeypress json wd (fst se) se bk) ^^ length ys) (s, env) =
           (s\<lparr>editBuffer := xs @ zs, editCursorPos := int (length xs)\<rparr>, env)"
proof (induction ys arbitrary: s rule: rev_induct)
  case Nil
  then show ?case by simp
next
  case (snoc y ys)
  let ?s1 = "s\<lparr>editBuffer := (xs @ ys) @ zs, editCursorPos := int (length (xs @ ys))\<rparr>"
  have step: "handleEditingKey s s bk = ?s1"
    using backspace_step [OF snoc.prems(1) assms, of "xs @ ys" y zs] snoc.prems by simp
  define f where "f = (\<lambda>se. handleKeypress json wd (fst se) se bk)"
  have "(f ^^ length (ys @ [y])) (s, env) = (f ^^ length ys) (f (s, env))"
    by (simp add: funpow_swap1)
  also have "\<dots> = (f ^^ length ys) (?s1, env)"
    using snoc.prems(1) step by (simp add: f_def handleKeypress_editing)
  also have "\<dots> = (?s1\<lparr>editBuffer := xs @ zs, editCursorPos := int (length xs)\<rparr>, env)"
    unfolding f_def using snoc.prems(1) by (intro snoc.IH) simp_all
  finally show ?case by (simp add: f_def)
qed

lemma paste_then_rendered_backspaces:
  assumes ed: "editingField s \<noteq> None"
    and lo: "0 \<le> editCursorPos s" and hi: "editCursorPos s \<le> cpLen (editBuffer s)"
    and pk: "paste k" "sequence k \<noteq> []"
    and bk: "Key.name bk = ''backspace''" "\<not> (paste bk \<and> sequence bk \<noteq> [])"
  shows "((\<lambda>se. handleKeypress json wd (fst se) se bk) ^^
            nat (cpLen (stripUnsafeCharacters (sequence k))))
            (handleKeypress json wd s (s, env) k) = (s, env)"
proof -
  let ?b = "editBuffer s" and ?p = "editCursorPos s"
  let ?t = "stripUnsafeCharacters (sequence k)"
  let ?s1 = "s\<lparr>editBuffer := take (nat ?p) ?b @ ?t @ drop (nat ?p) ?b,
                editCursorPos := ?p + cpLen ?t\<rparr>"
  have len: "int (length (take (nat ?p) ?b)) = ?p"
    using lo hi by (simp add: cpLen_def)
  have pasted: "handleKeypress json wd s (s, env) k = (?s1, env)"
    using paste_inserts [OF ed lo pk, of json wd s env] by simp
  have "((\<lambda>se. handleKeypress json wd (fst se) se bk) ^^ length ?t) (?s1, env) =
        (?s1\<lparr>editBuffer := take (nat ?p) ?b @ drop (nat ?p) ?b,
              editCursorPos := int (length (take (nat ?p) ?b))\<rparr>, env)"
    using ed len by (intro backspaces_remove [OF bk]) (simp_all add: cpLen_def)
  also have "\<dots> = (s, env)" using len by simp
  finally show ?thesis using pasted by (simp add: cpLen_def)
qed

text \<open>
  Claim C3: inserting the sanitised \<open>N\<close> code points of a paste at \<open>p\<close> grows the
  buffer by \<open>N\<close> and moves the cursor to \<open>p + N\<close>, and \<open>N\<close> backspaces then restore
  the original buffer and cursor. The backspace branch slices the current buffer at
  the cursor of its render. With buffer \<^verbatim>\<open>ab\<close> and cursor 1, the paste of \<^verbatim>\<open>xy\<close>
  gives \<^verbatim>\<open>axyb\<close> and cursor 3; two backspace events handled by the render of
  that state give \<^verbatim>\<open>axb\<close>, cursor 2, and then \<^verbatim>\<open>ax\<close>, cursor 1: not the original
  buffer \<^verbatim>\<open>ab\<close>.
\<close>

theorem batched_backspaces_after_paste:
  "handleKeypress exampleJSON [''work''] (exampleEditing (js ''ab'') 1)
      (exampleEditing (js ''ab'') 1, exampleEnv)
      \<lparr>Key.name = [], sequence = js ''xy'', paste = True\<rparr>
     = (exampleEditing (js ''axyb'') 3, exampleEnv) \<and>
   handleKeypress exampleJSON [''work''] (exampleEditing (js ''axyb'') 3)
      (exampleEditing (js ''axyb'') 3, exampleEnv)
      \<lparr>Key.name = ''backspace'', sequence = [127], paste = False\<rparr>
     = (exampleEditing (js ''axb'') 2, exampleEnv) \<and>
   handleKeypress exampleJSON [''work''] (exampleEditing (js ''axyb'') 3)
      (exampleEditing (js ''axb'') 2, exampleEnv)
      \<lparr>Key.name = ''backspace'', sequence = [127], paste = False\<rparr>
     = (exampleEditing (js ''ax'') 1, exampleEnv) \<and>
   js ''ax'' \<noteq> js ''ab''"
  by (simp add: handleKeypress_def handleEditingKey_def exampleEditing_def Let_def js_def
      cpLen_def cpSlice_def js_slice_def stripUnsafeCharacters_def isUnsafe_def)

section \<open>Typing a single character\<close>

text \<open>
  A key event in an edit session that is not a paste, whose name is none of the
  control keys and whose sanitised sequence is the single code point \<open>x\<close>: the
  handler tests \<^verbatim>\<open>ch.length === 1\<close>, the length in UTF-16 code units, so \<open>x\<close> is
  inserted exactly when it lies in the Basic Multilingual Plane.
\<close>

lemma single_codepoint_keypress:
  assumes "editingField c \<noteq> None" and "\<not> paste k"
    and "Key.name k \<notin> {''backspace'', ''delete'', ''escape'', ''return'', ''left'', ''right'',
                         ''home'', ''end''}"
    and "stripUnsafeCharacters (sequence k) = [x]" and "0 \<le> editCursorPos c"
  shows "handleKeypress json wd c (s, env) k =
           (if x < 65536
            then (s\<lparr>editBuffer := take (nat (editCursorPos c)) (editBuffer s) @ [x] @
                                    drop (nat (editCursorPos c)) (editBuffer s),
                     editCursorPos := editCursorPos s + 1\<rparr>, env)
            else (s, env))"
  using assms
  by (simp add: handleKeypress_editing handleEditingKey_def Let_def js_length_Cons js_length_Nil
      cpSlice_prefix cpSlice_suffix)

text \<open>
  Claim C1: in editing mode, an event that is not a paste and whose name is not a
  control key inserts its sanitised input at the cursor whenever that input is a
  single Unicode code point, also outside the Basic Multilingual Plane. The handler
  does not: U+1F600 (128512) sanitises to one code point, and the event leaves the
  buffer \<^verbatim>\<open>ab\<close> and the cursor as they were.
\<close>

theorem astral_keypress_not_inserted:
  "cpLen (stripUnsafeCharacters [128512]) = 1 \<and>
   handleKeypress exampleJSON [''work''] (exampleEditing (js ''ab'') 2)
      (exampleEditing (js ''ab'') 2, exampleEnv)
      \<lparr>Key.name = [], sequence = [128512], paste = False\<rparr>
     = (exampleEditing (js ''ab'') 2, exampleEnv)"
  by (simp add: handleKeypress_def handleEditingKey_def exampleEditing_def Let_def
      stripUnsafeCharacters_def isUnsafe_def cpLen_def js_length_def)

section \<open>Toggling a module\<close>

text \<open>
  Claim C7, as the code has it: activating a module row (\<^verbatim>\<open>module-sqlite\<close> or
  \<^verbatim>\<open>module-i18n\<close>) twice in succession gives a modules list with the same set of
  names as the original; after one activation while navigating the toggled name
  occurs at most once; and if no name occurred twice before an activation, none
  does after it.
\<close>

theorem module_toggle_twice:
  assumes "v = ''module-sqlite'' \<and> m = js ''sqlite'' \<or> v = ''module-i18n'' \<and> m = js ''i18n''"
  shows "set (modules (settings (handleSettingSelect (handleSettingSelect s v) v))) =
           set (modules (settings s)) \<and>
         (editingField s = None \<longrightarrow>
            count_list (modules (settings (handleSettingSelect s v))) m \<le> 1) \<and>
         (distinct (modules (settings s)) \<longrightarrow>
            distinct (modules (settings (handleSettingSelect s v))))"
  using assms by (auto simp add: handleSettingSelect_def count_list_0_iff)

theorem module_toggle_twice_witness:
  "modules (settings (handleSettingSelect initialState ''module-sqlite'')) = [js ''sqlite''] \<and>
   modules (settings (handleSettingSelect (handleSettingSelect initialState ''module-sqlite'')
      ''module-sqlite'')) = [] \<and>
   distinct (modules (settings (handleSettingSelect initialState ''module-sqlite'')))"
  using module_toggle_twice [of "''module-sqlite''" "js ''sqlite''" initialState]
  by (simp add: handleSettingSelect_def initialState_def DEFAULT_SETTINGS_def)

text \<open>
  The claim C7 as stated, that after any single activation every module name occurs
  at most once, fails for a settings state loaded from a file that lists a module
  twice: the load effect takes the list as it is, and toggling another module keeps
  the duplicate.
\<close>

theorem module_toggle_keeps_duplicates:
  "loadSettings exampleJSON [''work''] (exampleFS (js ''{\"modules\":[\"i18n\",\"i18n\"]}''))
     initialState = exampleDuplicates \<and>
   modules (settings (handleSettingSelect exampleDuplicates ''module-sqlite'')) =
     [js ''i18n'', js ''i18n'', js ''sqlite''] \<and>
   count_list (modules (settings (handleSettingSelect exampleDuplicates ''module-sqlite'')))
     (js ''i18n'') = 2"
proof -
  have "parse exampleJSON (js ''{\"modules\":[\"i18n\",\"i18n\"]}'') =
      Some \<lparr>loaded_name = None, loaded_styleReferenceUrl = None, loaded_platform = None,
            loaded_modules = Some [js ''i18n'', js ''i18n'']\<rparr>"
    by (simp add: exampleJSON_def js_def)
  then have "loadSettings exampleJSON [''work'']
      (exampleFS (js ''{\"modules\":[\"i18n\",\"i18n\"]}'')) initialState = exampleDuplicates"
    by (simp add: loadSettings_def existsSync_def readFileSync_def exampleFS_def
        settingsPath_def spread_def exampleDuplicates_def DEFAULT_SETTINGS_def initialState_def)
  then show ?thesis
    by (simp add: handleSettingSelect_def exampleDuplicates_def initialState_def js_def)
qed

section \<open>Loading the settings\<close>

text \<open>
  Claim C4: the load effect on mount. The defaults are name \<^verbatim>\<open>new-project\<close>, an
  empty style reference URL, platform Windows and no modules. If the settings file
  is absent, cannot be read or does not parse, the state stays the initial state
  with the default settings (the function returns a state in every case: nothing
  is raised). If it parses, every key of the loaded object replaces the default and
  every absent key keeps it; \<^verbatim>\<open>modules\<close> is replaced as a whole. A file that only
  sets the platform to Linux gives the defaults with platform Linux.
\<close>

theorem load_merges_over_defaults:
  "DEFAULT_SETTINGS =
     \<lparr>ProductSettings.name = js ''new-project'', styleReferenceUrl = [], platform = Windows,
      modules = []\<rparr> \<and>
   (\<not> existsSync fs (settingsPath wd) \<longrightarrow>
      loadSettings json wd fs initialState = initialState) \<and>
   (readFileSync fs (settingsPath wd) = Inl e \<longrightarrow>
      loadSettings json wd fs initialState = initialState) \<and>
   (readFileSync fs (settingsPath wd) = Inr content \<and> parse json content = None \<longrightarrow>
      loadSettings json wd fs initialState = initialState) \<and>
   (readFileSync fs (settingsPath wd) = Inr content \<and> parse json content = Some loaded \<longrightarrow>
      loadSettings json wd fs initialState =
        initialState\<lparr>settings :=
          \<lparr>ProductSettings.name =
             (case loaded_name loaded of None \<Rightarrow> js ''new-project'' | Some x \<Rightarrow> x),
           styleReferenceUrl =
             (case loaded_styleReferenceUrl loaded of None \<Rightarrow> [] | Some x \<Rightarrow> x),
           platform = (case loaded_platform loaded of None \<Rightarrow> Windows | Some x \<Rightarrow> x),
           modules = (case loaded_modules loaded of None \<Rightarrow> [] | Some x \<Rightarrow> x)\<rparr>\<rparr>) \<and>
   (readFileSync fs (settingsPath wd) = Inr content \<and>
    parse json content =
      Some \<lparr>loaded_name = None, loaded_styleReferenceUrl = None,
            loaded_platform = Some Linux, loaded_modules = None\<rparr> \<longrightarrow>
      settings (loadSettings json wd fs initialState) =
        \<lparr>ProductSettings.name = js ''new-project'', styleReferenceUrl = [], platform = Linux,
         modules = []\<rparr>)"
  by (auto simp add: loadSettings_def DEFAULT_SETTINGS_def spread_def initialState_def
      existsSync_def readFileSync_def split: option.splits node.splits if_splits)

theorem load_merges_over_defaults_witness:
  "readFileSync (exampleFS (js ''{\"platform\":\"Linux\"}'')) (settingsPath [''work'']) =
     Inr (js ''{\"platform\":\"Linux\"}'') \<and>
   settings (loadSettings exampleJSON [''work''] (exampleFS (js ''{\"platform\":\"Linux\"}''))
      initialState) =
     \<lparr>ProductSettings.name = js ''new-project'', styleReferenceUrl = [], platform = Linux,
      modules = []\<rparr> \<and>
   loadSettings exampleJSON [''work''] (exampleFS (js ''{not json'')) initialState = initialState \<and>
   loadSettings exampleJSON [''work''] (fsys exampleEnv) initialState = initialState"
proof -
  have rd: "readFileSync (exampleFS c) (settingsPath [''work'']) = Inr c" for c
    by (simp add: readFileSync_def exampleFS_def settingsPath_def)
  have p1: "parse exampleJSON (js ''{\"platform\":\"Linux\"}'') =
      Some \<lparr>loaded_name = None, loaded_styleReferenceUrl = None,
            loaded_platform = Some Linux, loaded_modules = None\<rparr>"
    by (simp add: exampleJSON_def)
  have p2: "parse exampleJSON (js ''{not json'') = None"
    by (simp add: exampleJSON_def js_def)
  have ne: "\<not> existsSync (fsys exampleEnv) (settingsPath [''work''])"
    by (simp add: existsSync_def exampleEnv_def settingsPath_def)
  show ?thesis
    using load_merges_over_defaults [of "exampleFS (js ''{\"platform\":\"Linux\"}'')" "[''work'']"
        exampleJSON ENOENT "js ''{\"platform\":\"Linux\"}''"
        "\<lparr>loaded_name = None, loaded_styleReferenceUrl = None,
            loaded_platform = Some Linux, loaded_modules = None\<rparr>"]
      load_merges_over_defaults [of "exampleFS (js ''{not json'')" "[''work'']"
        exampleJSON ENOENT "js ''{not json''"]
      load_merges_over_defaults [of "fsys exampleEnv" "[''work'']" exampleJSON]
    by (simp add: rd p1 p2 ne)
qed

section \<open>Saving the settings\<close>

lemma mkdirs_returns:
  "mkdirs fs qs = (fs', None) \<Longrightarrow>
     (\<forall>q\<in>set qs. nodes fs' q = Some Dir) \<and>
     (\<forall>p. p \<notin> set qs \<longrightarrow> nodes fs' p = nodes fs p) \<and>
     denied fs' = denied fs"
proof (induction qs arbitrary: fs)
  case Nil
  then show ?case by simp
next
  case (Cons q qs)
  show ?case
  proof (cases "nodes fs q")
    case None
    with Cons.prems have nd: "\<not> denied fs q"
      and rec: "mkdirs (fs\<lparr>nodes := (nodes fs)(q \<mapsto> Dir)\<rparr>) qs = (fs', None)"
      by (simp_all split: if_splits)
    from Cons.IH [OF rec] show ?thesis by (cases "q \<in> set qs") auto
  next
    case (Some n)
    show ?thesis
    proof (cases n)
      case Dir
      with Some Cons.prems have rec: "mkdirs fs qs = (fs', None)" by simp
      from Cons.IH [OF rec] Some Dir show ?thesis by (cases "q \<in> set qs") auto
    next
      case (File c)
      with Some Cons.prems show ?thesis by simp
    qed
  qed
qed

lemma saveSettings_try_returns:
  assumes "saveSettings_try json wd s env = Inr env2"
  shows "onSelectCalls env2 = onSelectCalls env @ [Some (settings s)] \<and>
         nodes (fsys env2) (wd @ [''.aaagent'']) = Some Dir \<and>
         nodes (fsys env2) (settingsPath wd) = Some (File (stringify json (settings s))) \<and>
         (\<not> existsSync (fsys env) (wd @ [''.aaagent'']) \<longrightarrow>
            (\<forall>q\<in>set (prefixes (wd @ [''.aaagent''])). nodes (fsys env2) q = Some Dir))"
proof -
  let ?dir = "wd @ [''.aaagent'']"
  let ?file = "?dir @ [''product-settings.json'']"
  obtain fs1 t1 where mk: "(if \<not> existsSync (fsys env) ?dir
              then mkdirSync_recursive (fsys env) ?dir
              else (fsys env, None)) = (fs1, t1)"
    by (cases "if \<not> existsSync (fsys env) ?dir
              then mkdirSync_recursive (fsys env) ?dir
              else (fsys env, None)") 
  obtain fs2 t2 where wr: "writeFileSync fs1 ?file (stringify json (settings s)) = (fs2, t2)"
    by (cases "writeFileSync fs1 ?file (stringify json (settings s))")
  from assms mk wr have t1: "t1 = None" and t2: "t2 = None"
    and env2: "env2 = onSelect (Some (settings s)) (env\<lparr>fsys := fs2\<rparr>)"
    by (auto simp add: saveSettings_try_def Let_def split: option.splits)
  have bl: "butlast (wd @ [''.aaagent'', ''product-settings.json'']) = wd @ [''.aaagent'']"
    by (simp add: butlast_append)
  from wr t2 have dir1: "nodes fs1 ?dir = Some Dir"
    and fs2: "fs2 = fs1\<lparr>nodes := (nodes fs1)(?file \<mapsto> File (stringify json (settings s)))\<rparr>"
    by (auto simp add: writeFileSync_def bl split: option.splits node.splits if_splits)
  have pre: "\<forall>q\<in>set (prefixes ?dir). nodes fs1 q = Some Dir"
    if "\<not> existsSync (fsys env) ?dir"
    using that mk t1 mkdirs_returns [of "fsys env" "prefixes ?dir" fs1]
    by (simp add: mkdirSync_recursive_def)
  have notin: "?file \<notin> set (prefixes ?dir)"
    by (auto dest: prefix_length_le)
  show ?thesis
    using env2 fs2 dir1 pre notin by (auto simp add: onSelect_def settingsPath_def)
qed

text \<open>
  Claim C8: \<^verbatim>\<open>saveSettings\<close> creates the directory \<^verbatim>\<open>.aaagent\<close> recursively when it
  does not exist, writes \<^verbatim>\<open>JSON.stringify\<close> of the whole settings object (a function
  of the settings alone) to the settings file and then calls the result callback
  once with the settings. If \<^verbatim>\<open>mkdirSync\<close> or \<^verbatim>\<open>writeFileSync\<close> throws, it calls the
  callback once with \<^verbatim>\<open>undefined\<close> instead; it returns an environment in every
  case, so nothing is raised to the caller. After a successful save the directory
  (with all its ancestors, when it was created) is a directory and the file holds
  the serialization. The return key on the first action runs \<^verbatim>\<open>saveSettings\<close> on
  the settings of the handler's render.
\<close>

theorem save_reports_once:
  "(let dir = wd @ [''.aaagent''];
        content = stringify json (settings s);
        mk = (if \<not> existsSync (fsys env) dir then mkdirSync_recursive (fsys env) dir
              else (fsys env, None));
        wr = writeFileSync (fst mk) (settingsPath wd) content
    in saveSettings json wd s env =
         (if snd mk = None \<and> snd wr = None
          then \<lparr>fsys = fst wr, onSelectCalls = onSelectCalls env @ [Some (settings s)]\<rparr>
          else \<lparr>fsys = (if snd mk = None then fst wr else fst mk),
                onSelectCalls = onSelectCalls env @ [None]\<rparr>) \<and>
       (snd mk = None \<and> snd wr = None \<longrightarrow>
          nodes (fst wr) dir = Some Dir \<and>
          nodes (fst wr) (settingsPath wd) = Some (File content) \<and>
          (\<not> existsSync (fsys env) dir \<longrightarrow>
             (\<forall>q\<in>set (prefixes dir). nodes (fst wr) q = Some Dir))) \<and>
       (editingField s = None \<and> focusMode s = FocusActions \<and> actionIndex s = 0 \<and>
        Key.name k = ''return'' \<longrightarrow>
          handleKeypress json wd s (s', env) k = (s', saveSettings json wd s env)))"
proof -
  let ?dir = "wd @ [''.aaagent'']"
  let ?content = "stringify json (settings s)"
  let ?mk = "if \<not> existsSync (fsys env) ?dir then mkdirSync_recursive (fsys env) ?dir
             else (fsys env, None)"
  let ?wr = "writeFileSync (fst ?mk) (settingsPath wd) ?content"
  have sp: "settingsPath wd = ?dir @ [''product-settings.json'']"
    by (simp add: settingsPath_def)
  have eq: "saveSettings json wd s env =
         (if snd ?mk = None \<and> snd ?wr = None
          then \<lparr>fsys = fst ?wr, onSelectCalls = onSelectCalls env @ [Some (settings s)]\<rparr>
          else \<lparr>fsys = (if snd ?mk = None then fst ?wr else fst ?mk),
                onSelectCalls = onSelectCalls env @ [None]\<rparr>)"
    unfolding saveSettings_def saveSettings_try_def Let_def sp
    by (cases "?mk"; cases "?wr") (auto simp add: onSelect_def sp split: option.splits)
  have ok: "nodes (fst ?wr) ?dir = Some Dir \<and>
          nodes (fst ?wr) (settingsPath wd) = Some (File ?content) \<and>
          (\<not> existsSync (fsys env) ?dir \<longrightarrow>
             (\<forall>q\<in>set (prefixes ?dir). nodes (fst ?wr) q = Some Dir))"
    if r: "snd ?mk = None" "snd ?wr = None"
  proof -
    have "saveSettings_try json wd s env =
            Inr (onSelect (Some (settings s)) (env\<lparr>fsys := fst ?wr\<rparr>))"
      using r unfolding saveSettings_try_def Let_def sp
      by (cases "?mk"; cases "?wr") (auto simp add: sp split: option.splits)
    from saveSettings_try_returns [OF this] show ?thesis by (simp add: onSelect_def)
  qed
  have key: "handleKeypress json wd s (s', env) k = (s', saveSettings json wd s env)"
    if "editingField s = None" "focusMode s = FocusActions" "actionIndex s = 0"
       "Key.name k = ''return''"
    using that by (simp add: handleKeypress_def Let_def)
  show ?thesis
    unfolding Let_def using eq ok key by blast
qed

theorem save_reports_once_witness:
  "onSelectCalls (saveSettings exampleJSON [''work''] initialState exampleEnv) =
     [Some DEFAULT_SETTINGS] \<and>
   nodes (fsys (saveSettings exampleJSON [''work''] initialState exampleEnv))
     [''work'', ''.aaagent''] = Some Dir \<and>
   nodes (fsys (saveSettings exampleJSON [''work''] initialState exampleEnv))
     [''work'', ''.aaagent'', ''product-settings.json''] =
       Some (File (stringify exampleJSON DEFAULT_SETTINGS)) \<and>
   onSelectCalls (saveSettings exampleJSON [''work''] initialState exampleDeniedEnv) = [None]"
proof -
  let ?fs1 = "\<lparr>nodes = [[] \<mapsto> Dir, [''work''] \<mapsto> Dir, [''work'', ''.aaagent''] \<mapsto> Dir],
        denied = (\<lambda>p. False)\<rparr>"
  let ?c = "stringify exampleJSON DEFAULT_SETTINGS"
  have mk: "mkdirSync_recursive (fsys exampleEnv) [''work'', ''.aaagent''] = (?fs1, None)"
    by (simp add: mkdirSync_recursive_def exampleEnv_def)
  have wr: "writeFileSync ?fs1 (settingsPath [''work'']) ?c =
      (?fs1\<lparr>nodes := (nodes ?fs1)(settingsPath [''work''] \<mapsto> File ?c)\<rparr>, None)"
    by (simp add: writeFileSync_def settingsPath_def)
  have mkd: "mkdirSync_recursive (fsys exampleDeniedEnv) [''work'', ''.aaagent''] =
      (fsys exampleDeniedEnv, Some EACCES)"
    by (simp add: mkdirSync_recursive_def exampleDeniedEnv_def)
  have ex: "\<not> existsSync (fsys exampleEnv) [''work'', ''.aaagent'']"
       "\<not> existsSync (fsys exampleDeniedEnv) [''work'', ''.aaagent'']"
    by (simp_all add: existsSync_def exampleEnv_def exampleDeniedEnv_def)
  have calls: "onSelectCalls exampleEnv = []" "onSelectCalls exampleDeniedEnv = []"
    by (simp_all add: exampleEnv_def exampleDeniedEnv_def)
  have st: "settings initialState = DEFAULT_SETTINGS"
    by (simp add: initialState_def)
  have a: "saveSettings exampleJSON [''work''] initialState exampleEnv =
      \<lparr>fsys = ?fs1\<lparr>nodes := (nodes ?fs1)(settingsPath [''work''] \<mapsto> File ?c)\<rparr>,
       onSelectCalls = [Some DEFAULT_SETTINGS]\<rparr>"
    using save_reports_once [of "[''work'']" exampleJSON initialState exampleEnv]
    by (simp add: Let_def ex mk wr calls st)
  have b: "saveSettings exampleJSON [''work''] initialState exampleDeniedEnv =
      \<lparr>fsys = fsys exampleDeniedEnv, onSelectCalls = [None]\<rparr>"
    using save_reports_once [of "[''work'']" exampleJSON initialState exampleDeniedEnv]
    by (simp add: Let_def ex mkd calls st)
  show ?thesis
    unfolding a b by (simp add: settingsPath_def)
qed

end
